theory Spec2Isabelle
  imports Complex_Main "HOL-Library.Sublist"
begin

section \<open>The note-enhancement route of StudyBoost\<close>

text \<open>
  A shallow embedding of \<^verbatim>\<open>src/app/api/enhance-note/route.ts\<close>: the handler
  \<^verbatim>\<open>POST\<close>, the constant \<^verbatim>\<open>enhancementPrompts\<close> and the built-ins the
  handler relies on. JavaScript strings are lists of code units; the model keeps the
  code units below 256 (\<open>char\<close>), so \<open>length\<close> is JavaScript's \<^verbatim>\<open>.length\<close>.
  Values read from the request body have their declared TypeScript types. The client
  is built when the module is loaded (lines 7 to 9), before any request is handled: the
  route as a whole is \<open>route\<close> below, the handler alone is \<open>POST\<close>.
\<close>

subsection \<open>Data model\<close>

text \<open>
  Modelled from the spec: \<^verbatim>\<open>EnhancementSettings\<close> is imported from
  \<^verbatim>\<open>@/lib/types\<close>, which is not part of the sources at hand. The spec (section 3)
  gives its six fields and the three structure levels; the handler compares
  \<^verbatim>\<open>structureLevel\<close> with the literals "comprehensive" and "detailed" and writes
  the literal "basic".
\<close>

datatype StructureLevel = Basic | Detailed | Comprehensive

record EnhancementSettings =
  includeDefinitions :: bool
  generateQuestions :: bool
  createSummary :: bool
  addExamples :: bool
  structureLevel :: StructureLevel
  autoGenerateFlashcards :: bool

text \<open>
  Modelled from the spec: \<^verbatim>\<open>getModelConfig\<close> comes from \<^verbatim>\<open>@/lib/config\<close>,
  which is not part of the sources at hand. The handler reads the three fields below;
  the spec (section 3) gives the two ceilings as integers, and the handler does not
  check their sign. The lookup itself is a parameter of the environment.
\<close>

record ModelConfig =
  name :: string
  maxInputTokens :: int
  maxOutputTokens :: int

text \<open>The JSON body of the request, as destructured on line 39.\<close>

record EnhancementRequest =
  noteId :: string
  originalContent :: string
  subject :: string
  enhancementSettings :: EnhancementSettings

text \<open>
  The JSON body of a response together with its HTTP status. A key that the handler
  does not write is \<open>None\<close>.
\<close>

record EnhancementResult =
  http_status :: nat
  success :: bool
  error :: "string option"
  details :: "string option"
  enhancedContent :: "string option"
  processingTime :: "int option"
  wordCount :: "nat option"
  estimatedTokens :: "nat option"
  maxTokens :: "int option"

text \<open>
  Whatever is thrown inside the \<^verbatim>\<open>try\<close> block. The \<^verbatim>\<open>catch\<close> clause reads the
  properties \<^verbatim>\<open>code\<close> and \<^verbatim>\<open>status\<close> only; \<open>err_message\<close> stands for the rest of
  the thrown object (message, stack, provider payload).
\<close>

record Fault =
  code :: "string option"
  status :: "int option"
  err_message :: string

text \<open>The result of \<^verbatim>\<open>auth()\<close>: \<^verbatim>\<open>has\<close> may be absent, as the optional call shows.\<close>

record AuthObject =
  userId :: "string option"
  has :: "(string \<Rightarrow> bool) option"

text \<open>What the handler sends to, and reads from, \<^verbatim>\<open>openai.chat.completions.create\<close>.\<close>

record CompletionRequest =
  model :: string
  messages :: "(string \<times> string) list"
  temperature :: rat
  max_tokens :: int

datatype ChatMessage = ChatMessage (content: "string option")

datatype Choice = Choice (message: "ChatMessage option")

datatype ChatCompletion = ChatCompletion (choices: "Choice list")

text \<open>
  Everything outside the handler: the identity provider, the request body, the two
  environment variables, the model registry, the completion provider and the two
  readings of the clock. A collaborator that can throw returns a sum.
\<close>

record Env =
  auth :: "Fault + AuthObject"
  request_json :: "Fault + EnhancementRequest"
  OPENAI_API_KEY :: "string option"
  OPENAI_MODEL :: "string option"
  getModelConfig :: "string \<Rightarrow> ModelConfig"
  chat_completions_create :: "CompletionRequest \<Rightarrow> Fault + ChatCompletion"
  date_now_start :: int
  date_now_end :: int

text \<open>The effects of one run, in the order in which they happen.\<close>

datatype Effect =
    CallAuth
  | ReadBody
  | ConsoleLog string
  | ConsoleError Fault
  | CreateCompletion CompletionRequest

subsection \<open>Built-ins of the language\<close>

text \<open>A string is falsy when it is absent or empty.\<close>

definition falsy :: "string option \<Rightarrow> bool" where
  "falsy v = (case v of None \<Rightarrow> True | Some s \<Rightarrow> s = [])"

text \<open>
  Template literals print an integer in decimal, with a minus sign when it is negative.
  (From \<open>10\<^sup>2\<^sup>1\<close> on JavaScript prints the exponent form; no content and no ceiling of a
  model comes near.)
\<close>

fun show_nat :: "nat \<Rightarrow> string" where
  "show_nat n =
     (if n < 10 then [''0123456789'' ! n]
      else show_nat (n div 10) @ [''0123456789'' ! (n mod 10)])"

declare show_nat.simps [simp del]

definition show_int :: "int \<Rightarrow> string" where
  "show_int i = (if i < 0 then ''-'' @ show_nat (nat (- i)) else show_nat (nat i))"

text \<open>\<^verbatim>\<open>Array.prototype.join\<close>.\<close>

fun join :: "string \<Rightarrow> string list \<Rightarrow> string" where
  "join sep [] = []"
| "join sep [x] = x"
| "join sep (x # y # ys) = x @ sep @ join sep (y # ys)"

text \<open>
  The class \<^verbatim>\<open>\s\<close> of a regular expression, among the code units below 256: tab,
  line feed, vertical tab, form feed, carriage return, space and no-break space.
\<close>

definition is_space :: "char \<Rightarrow> bool" where
  "is_space c = (c \<in> set [CHR 0x09, CHR 0x0A, CHR 0x0B, CHR 0x0C, CHR 0x0D, CHR 0x20, CHR 0xA0])"

text \<open>
  \<^verbatim>\<open>s.split(/\s+/)\<close>: the string is cut at every maximal run of white space; a run
  at the start or at the end leaves an empty piece, and the empty string gives one
  empty piece. \<open>in_run\<close> says that the previous code unit was white space, \<open>cur\<close> is
  the piece being read, reversed.
\<close>

fun split_go :: "bool \<Rightarrow> string \<Rightarrow> string \<Rightarrow> string list" where
  "split_go in_run cur [] = [rev cur]"
| "split_go in_run cur (c # cs) =
     (if is_space c then
        (if in_run then split_go True [] cs else rev cur # split_go True [] cs)
      else split_go False (c # cur) cs)"

definition split_ws :: "string \<Rightarrow> string list" where
  "split_ws s = split_go False [] s"

subsection \<open>The constant \<^verbatim>\<open>enhancementPrompts\<close> (lines 11 to 26)\<close>

definition enhancementPrompts_structure :: string where
  "enhancementPrompts_structure =
     ''Organize this content with clear headings, bullet points, and logical flow. \<newline>'' @
     ''  Make it easy to read and understand for students.''"

definition enhancementPrompts_definitions :: string where
  "enhancementPrompts_definitions =
     ''Identify technical terms, jargon, or complex concepts and provide clear, \<newline>'' @
     ''  student-friendly definitions for each. Format as: **Term**: Definition''"

definition enhancementPrompts_questions :: string where
  "enhancementPrompts_questions =
     ''Generate 3-5 study questions from this content that would help students \<newline>'' @
     ''  test their understanding. Include both factual and conceptual questions.''"

definition enhancementPrompts_summary :: string where
  "enhancementPrompts_summary =
     ''Create concise summaries of each major section. Highlight key takeaways \<newline>'' @
     ''  and main points that students should remember.''"

definition enhancementPrompts_examples :: string where
  "enhancementPrompts_examples =
     ''Add relevant examples, analogies, or real-world applications for abstract \<newline>'' @
     ''  concepts mentioned in the content.''"

text \<open>The literal pushed on line 111 for the level "detailed".\<close>

definition detailed_instruction :: string where
  "detailed_instruction = ''Organize this content with clear headings and bullet points.''"

subsection \<open>The handler \<^verbatim>\<open>POST\<close> (lines 28 to 188), piece by piece\<close>

text \<open>A response body with no optional key, the starting point of every response.\<close>

definition json_response :: "nat \<Rightarrow> bool \<Rightarrow> EnhancementResult" where
  "json_response st ok =
     \<lparr>http_status = st, success = ok, error = None, details = None,
      enhancedContent = None, processingTime = None, wordCount = None,
      estimatedTokens = None, maxTokens = None\<rparr>"

text \<open>Lines 31 to 33: the response when \<^verbatim>\<open>userId\<close> is falsy.\<close>

definition not_authenticated :: EnhancementResult where
  "not_authenticated = (json_response 401 False)\<lparr>error := Some ''Not authenticated''\<rparr>"

text \<open>Lines 35 to 37: \<^verbatim>\<open>has?.({ plan: p }) ?? false\<close> and the three plans.\<close>

definition has_plan :: "AuthObject \<Rightarrow> string \<Rightarrow> bool" where
  "has_plan a p = (case has a of None \<Rightarrow> False | Some h \<Rightarrow> h p)"

definition isStudent :: "AuthObject \<Rightarrow> bool" where
  "isStudent a = has_plan a ''student''"

definition isPro :: "AuthObject \<Rightarrow> bool" where
  "isPro a = (has_plan a ''pro'' \<or> has_plan a ''premium'')"

definition isPaid :: "AuthObject \<Rightarrow> bool" where
  "isPaid a = (isStudent a \<or> isPro a)"

text \<open>Lines 42 to 49: the settings that apply.\<close>

definition basic_preset :: EnhancementSettings where
  "basic_preset =
     \<lparr>includeDefinitions = True, generateQuestions = False, createSummary = False,
      addExamples = False, structureLevel = Basic, autoGenerateFlashcards = False\<rparr>"

definition effectiveSettings :: "bool \<Rightarrow> EnhancementSettings \<Rightarrow> EnhancementSettings" where
  "effectiveSettings paid requested = (if paid then requested else basic_preset)"

text \<open>
  Line 52: \<^verbatim>\<open>Math.ceil(originalContent.length / 4)\<close>, a division of numbers
  followed by rounding up.
\<close>

definition estimate_tokens :: "string \<Rightarrow> nat" where
  "estimate_tokens c = nat \<lceil>real (length c) / 4\<rceil>"

text \<open>Line 53: \<^verbatim>\<open>process.env.OPENAI_MODEL || "gpt-3.5-turbo"\<close>.\<close>

definition model_name :: "Env \<Rightarrow> string" where
  "model_name env =
     (case OPENAI_MODEL env of
        None \<Rightarrow> ''gpt-3.5-turbo''
      | Some m \<Rightarrow> if m = [] then ''gpt-3.5-turbo'' else m)"

text \<open>Lines 57 and 58: the two lines written to the log.\<close>

definition log_lines :: "string \<Rightarrow> ModelConfig \<Rightarrow> nat \<Rightarrow> Effect list" where
  "log_lines m cfg est =
     [ConsoleLog (''Using model: '' @ m @ '' ('' @ name cfg @ '')''),
      ConsoleLog (''Estimated tokens: '' @ show_nat est @ ''/'' @ show_int (maxInputTokens cfg))]"

text \<open>
  Lines 60 to 67: the budget gate. \<open>Some r\<close> is the early return with response \<open>r\<close>,
  \<open>None\<close> lets the handler go on.
\<close>

definition budget_gate :: "string \<Rightarrow> ModelConfig \<Rightarrow> EnhancementResult option" where
  "budget_gate c cfg =
     (let est = estimate_tokens c;
          maxT = maxInputTokens cfg
      in if int est > maxT then
           Some ((json_response 400 False)
             \<lparr>error := Some (''Content too large ('' @ show_nat est @
                 '' estimated tokens). Please reduce content to under '' @
                 show_int (maxT * 4) @ '' characters.''),
              estimatedTokens := Some est,
              maxTokens := Some (maxT * 4)\<rparr>)
         else None)"

text \<open>
  Lines 71 to 88: the placeholder document. The template literal is not closed in the
  source file at hand: what follows the line of the rule \<^verbatim>\<open>---\<close>, up to the closing
  back quote, is missing there, and is the parameter \<open>footer\<close> here and in the handler.
\<close>

definition mockEnhancedContent :: "string \<Rightarrow> string \<Rightarrow> string \<Rightarrow> string" where
  "mockEnhancedContent footer subj c =
     ''# Enhanced: '' @ subj @ ''\<newline>'' @
     ''\<newline>'' @
     ''## Summary\<newline>'' @
     ''This is a mock enhancement since no OpenAI API key is configured. Please add your OpenAI API key to the .env.local file for full functionality.\<newline>'' @
     ''\<newline>'' @
     ''## Original Content\<newline>'' @
     c @ ''\<newline>'' @
     ''\<newline>'' @
     ''## Study Questions\<newline>'' @
     ''1. What are the main points covered in this content?\<newline>'' @
     ''2. How can you apply these concepts in practice?\<newline>'' @
     ''3. What questions do you have about this material?\<newline>'' @
     ''\<newline>'' @
     ''## Key Terms\<newline>'' @
     ''- **Term**: Definition would appear here with real API\<newline>'' @
     ''- **Concept**: Explanation would appear here with real API\<newline>'' @
     ''\<newline>'' @
     ''---\<newline>'' @
     footer"

text \<open>Lines 90 to 95: the response of the placeholder path (status 200 by default).\<close>

definition mock_response :: "string \<Rightarrow> string \<Rightarrow> string \<Rightarrow> EnhancementResult" where
  "mock_response footer subj c =
     (let mock = mockEnhancedContent footer subj c
      in (json_response 200 True)
           \<lparr>enhancedContent := Some mock,
            processingTime := Some 1000,
            wordCount := Some (length (split_ws mock))\<rparr>)"

text \<open>
  Lines 106 to 128: the array \<^verbatim>\<open>enhancements\<close>, one \<^verbatim>\<open>push\<close> after the other.
\<close>

definition enhancements :: "EnhancementSettings \<Rightarrow> string list" where
  "enhancements s =
     (let e0 = [];
          e1 = (if structureLevel s = Comprehensive then e0 @ [enhancementPrompts_structure]
                else if structureLevel s = Detailed then e0 @ [detailed_instruction]
                else e0);
          e2 = (if includeDefinitions s then e1 @ [enhancementPrompts_definitions] else e1);
          e3 = (if generateQuestions s then e2 @ [enhancementPrompts_questions] else e2);
          e4 = (if createSummary s then e3 @ [enhancementPrompts_summary] else e3);
          e5 = (if addExamples s then e4 @ [enhancementPrompts_examples] else e4)
      in e5)"

text \<open>Line 130, between the label and the two line feeds: the joined instructions.\<close>

definition enhancement_block :: "EnhancementSettings \<Rightarrow> string" where
  "enhancement_block s = join ''\<newline>\<newline>'' (enhancements s)"

text \<open>Lines 100 to 135: the prompt, one \<^verbatim>\<open>+=\<close> after the other.\<close>

definition compose_prompt :: "string \<Rightarrow> string \<Rightarrow> EnhancementSettings \<Rightarrow> string" where
  "compose_prompt subj c s =
     (let p0 = ''You are an expert educational assistant helping to enhance student notes. '';
          p1 = p0 @ (''The content is from a '' @ subj @ '' class. '');
          p2 = p1 @ ''Please enhance this content to make it more organized, clear, and study-friendly.\<newline>\<newline>'';
          p3 = p2 @ (''Original content:\<newline>'' @ c @ ''\<newline>\<newline>'');
          p4 = p3 @ (''Enhancement instructions:\<newline>'' @ join ''\<newline>\<newline>'' (enhancements s) @ ''\<newline>\<newline>'');
          p5 = p4 @ ''Please provide the enhanced content in markdown format. '';
          p6 = p5 @ ''Make it well-structured, easy to read, and study-friendly. '';
          p7 = p6 @ ''If you add definitions, format them as **Term**: Definition. '';
          p8 = p7 @ ''If you add questions, format them as ### Study Questions followed by numbered questions. '';
          p9 = p8 @ ''If you add summaries, format them as ### Summary followed by bullet points.''
      in p9)"

text \<open>Lines 137 to 151: the request sent to the provider.\<close>

definition system_message :: string where
  "system_message = ''You are an expert educational assistant that helps students improve their notes. Always respond in markdown format and focus on clarity, organization, and educational value.''"

definition completion_request :: "string \<Rightarrow> ModelConfig \<Rightarrow> string \<Rightarrow> CompletionRequest" where
  "completion_request m cfg prompt =
     \<lparr>model = m,
      messages = [(''system'', system_message), (''user'', prompt)],
      temperature = 7 / 10,
      max_tokens = maxOutputTokens cfg\<rparr>"

text \<open>Line 153: \<^verbatim>\<open>completion.choices[0]?.message?.content || ""\<close>.\<close>

definition first_content :: "ChatCompletion \<Rightarrow> string" where
  "first_content completion =
     (case choices completion of
        [] \<Rightarrow> []
      | ch # _ \<Rightarrow>
          (case message ch of
             None \<Rightarrow> []
           | Some m \<Rightarrow> (case content m of None \<Rightarrow> [] | Some t \<Rightarrow> t)))"

text \<open>Lines 153 to 162: the response of the real path (status 200 by default).\<close>

definition success_response :: "ChatCompletion \<Rightarrow> int \<Rightarrow> int \<Rightarrow> EnhancementResult" where
  "success_response completion startTime now =
     (let enhanced = first_content completion
      in (json_response 200 True)
           \<lparr>enhancedContent := Some enhanced,
            processingTime := Some (now - startTime),
            wordCount := Some (length (split_ws enhanced))\<rparr>)"

text \<open>Lines 167 to 186: the \<^verbatim>\<open>catch\<close> clause, after the line written to the log.\<close>

definition handle_error :: "Fault \<Rightarrow> EnhancementResult" where
  "handle_error e =
     (if code e = Some ''rate_limit_exceeded'' then
        (json_response 429 False)
          \<lparr>error := Some ''Rate limit exceeded. Please wait a moment and try again, or reduce the content size.'',
           details := Some ''OpenAI rate limit hit. Try with shorter content.''\<rparr>
      else if status e = Some 429 then
        (json_response 400 False)
          \<lparr>error := Some ''Content too large for processing. Please reduce the content size and try again.'',
           details := Some ''Token limit exceeded. Try with shorter content.''\<rparr>
      else
        (json_response 500 False)
          \<lparr>error := Some ''Failed to enhance note. Please try again.''\<rparr>)"

subsection \<open>The handler as a whole\<close>

text \<open>
  The \<^verbatim>\<open>try\<close> block: it ends with a response (\<open>Inr\<close>) or with something thrown
  (\<open>Inl\<close>), and in both cases with the effects that happened until then.
\<close>

definition try_block :: "string \<Rightarrow> Env \<Rightarrow> (Fault + EnhancementResult) \<times> Effect list" where
  "try_block footer env =
     (case auth env of
        Inl e \<Rightarrow> (Inl e, [CallAuth])
      | Inr a \<Rightarrow>
          if falsy (userId a) then (Inr not_authenticated, [CallAuth])
          else
            (case request_json env of
               Inl e \<Rightarrow> (Inl e, [CallAuth, ReadBody])
             | Inr body \<Rightarrow>
                 (let settings = effectiveSettings (isPaid a) (enhancementSettings body);
                      est = estimate_tokens (originalContent body);
                      m = model_name env;
                      modelConfig = getModelConfig env m;
                      before = [CallAuth, ReadBody] @ log_lines m modelConfig est
                  in case budget_gate (originalContent body) modelConfig of
                       Some r \<Rightarrow> (Inr r, before)
                     | None \<Rightarrow>
                         if falsy (OPENAI_API_KEY env) then
                           (Inr (mock_response footer (subject body) (originalContent body)), before)
                         else
                           (let startTime = date_now_start env;
                                prompt = compose_prompt (subject body) (originalContent body) settings;
                                req = completion_request m modelConfig prompt
                            in case chat_completions_create env req of
                                 Inl e \<Rightarrow> (Inl e, before @ [CreateCompletion req])
                               | Inr completion \<Rightarrow>
                                   (Inr (success_response completion startTime (date_now_end env)),
                                    before @ [CreateCompletion req])))))"

text \<open>The handler: the \<^verbatim>\<open>try\<close> block, and the \<^verbatim>\<open>catch\<close> clause for what it throws.\<close>

definition POST :: "string \<Rightarrow> Env \<Rightarrow> EnhancementResult \<times> Effect list" where
  "POST footer env =
     (case try_block footer env of
        (Inr r, effects) \<Rightarrow> (r, effects)
      | (Inl e, effects) \<Rightarrow> (handle_error e, effects @ [ConsoleError e]))"

text \<open>The prompts that a run has sent to the provider, read off its effects.\<close>

fun sent_prompts :: "Effect list \<Rightarrow> string list" where
  "sent_prompts [] = []"
| "sent_prompts (CreateCompletion req # es) = map snd (filter (\<lambda>m. fst m = ''user'') (messages req)) @ sent_prompts es"
| "sent_prompts (_ # es) = sent_prompts es"

text \<open>How many times a run has called the provider.\<close>

fun provider_calls :: "Effect list \<Rightarrow> nat" where
  "provider_calls [] = 0"
| "provider_calls (CreateCompletion req # es) = Suc (provider_calls es)"
| "provider_calls (_ # es) = provider_calls es"

subsection \<open>The module (lines 7 to 9) and the route\<close>

text \<open>
  Lines 7 to 9 run once, when the module is loaded:
  \<^verbatim>\<open>new OpenAI({ apiKey: process.env.OPENAI_API_KEY })\<close>. The constructor belongs to the
  package \<^verbatim>\<open>openai\<close>, not to this repository; in the releases that offer
  \<^verbatim>\<open>chat.completions.create\<close> it throws when the key it is given is undefined and
  accepts every string, the empty one included.
\<close>

datatype ModuleLoad = ClientBuilt | ConstructorThrows

definition new_OpenAI :: "string option \<Rightarrow> ModuleLoad" where
  "new_OpenAI apiKey = (case apiKey of None \<Rightarrow> ConstructorThrows | Some k \<Rightarrow> ClientBuilt)"

text \<open>
  What a request to the route ends with: the module did not load, so the handler never
  ran, or the handler ran and gave a response with its effects.
\<close>

datatype RouteOutcome = LoadFailure | Handled EnhancementResult "Effect list"

definition route :: "string \<Rightarrow> Env \<Rightarrow> RouteOutcome" where
  "route footer env =
     (case new_OpenAI (OPENAI_API_KEY env) of
        ConstructorThrows \<Rightarrow> LoadFailure
      | ClientBuilt \<Rightarrow> (case POST footer env of (r, effects) \<Rightarrow> Handled r effects))"

subsection \<open>Sample collaborators\<close>

text \<open>Concrete values on which the handler is run below.\<close>

definition sample_config :: ModelConfig where
  "sample_config = \<lparr>name = ''GPT-3.5 Turbo'', maxInputTokens = 2000, maxOutputTokens = 1000\<rparr>"

definition negative_ceiling_config :: ModelConfig where
  "negative_ceiling_config =
     \<lparr>name = ''misconfigured'', maxInputTokens = - 1, maxOutputTokens = 1000\<rparr>"

definition sample_settings :: EnhancementSettings where
  "sample_settings =
     \<lparr>includeDefinitions = True, generateQuestions = True, createSummary = True,
      addExamples = True, structureLevel = Comprehensive, autoGenerateFlashcards = True\<rparr>"

definition all_off :: EnhancementSettings where
  "all_off =
     \<lparr>includeDefinitions = False, generateQuestions = False, createSummary = False,
      addExamples = False, structureLevel = Basic, autoGenerateFlashcards = False\<rparr>"

definition sample_request :: "string \<Rightarrow> EnhancementSettings \<Rightarrow> EnhancementRequest" where
  "sample_request c s =
     \<lparr>noteId = ''note-1'', originalContent = c, subject = ''Biology'', enhancementSettings = s\<rparr>"

definition sample_auth :: "string option \<Rightarrow> string list \<Rightarrow> AuthObject" where
  "sample_auth uid plans = \<lparr>userId = uid, has = Some (\<lambda>p. p \<in> set plans)\<rparr>"

definition sample_env ::
  "AuthObject \<Rightarrow> EnhancementRequest \<Rightarrow> string option \<Rightarrow> (Fault + ChatCompletion) \<Rightarrow> Env" where
  "sample_env a body key outcome =
     \<lparr>auth = Inr a, request_json = Inr body, OPENAI_API_KEY = key, OPENAI_MODEL = None,
      getModelConfig = (\<lambda>_. sample_config),
      chat_completions_create = (\<lambda>_. outcome),
      date_now_start = 5000, date_now_end = 5750\<rparr>"

definition sample_completion :: "string \<Rightarrow> ChatCompletion" where
  "sample_completion t = ChatCompletion [Choice (Some (ChatMessage (Some t)))]"

definition sample_footer :: string where
  "sample_footer = ''*Mock response*''"

definition free_user :: AuthObject where
  "free_user = sample_auth (Some ''user_1'') []"

definition pro_user :: AuthObject where
  "pro_user = sample_auth (Some ''user_2'') [''pro'']"

definition anonymous :: AuthObject where
  "anonymous = sample_auth None []"

definition short_note :: string where
  "short_note = ''Cells divide by mitosis.''"

definition oversized_env :: Env where
  "oversized_env =
     sample_env free_user (sample_request (replicate 10000 (CHR ''x'')) sample_settings)
       (Some ''sk-1'') (Inr (sample_completion ''ok''))"

definition no_key_env :: Env where
  "no_key_env =
     sample_env pro_user (sample_request short_note sample_settings) None
       (Inr (sample_completion ''ok''))"

definition empty_key_env :: Env where
  "empty_key_env =
     sample_env pro_user (sample_request short_note sample_settings) (Some [])
       (Inr (sample_completion ''ok''))"

definition anonymous_env :: Env where
  "anonymous_env =
     sample_env anonymous (sample_request short_note sample_settings) (Some ''sk-1'')
       (Inr (sample_completion ''ok''))"

definition provider_env :: "AuthObject \<Rightarrow> EnhancementSettings \<Rightarrow> (Fault + ChatCompletion) \<Rightarrow> Env" where
  "provider_env a s outcome = sample_env a (sample_request short_note s) (Some ''sk-1'') outcome"

definition rate_limit_fault :: Fault where
  "rate_limit_fault =
     \<lparr>code = Some ''rate_limit_exceeded'', status = Some 429,
      err_message = ''Rate limit reached for requests''\<rparr>"

definition too_many_requests_fault :: Fault where
  "too_many_requests_fault =
     \<lparr>code = Some ''insufficient_quota'', status = Some 429,
      err_message = ''You exceeded your current quota''\<rparr>"

definition connection_fault :: Fault where
  "connection_fault =
     \<lparr>code = Some ''ECONNRESET'', status = None, err_message = ''socket hang up''\<rparr>"

definition student_env :: Env where
  "student_env =
     \<lparr>auth = Inr (sample_auth (Some ''user_3'') [''student'']),
      request_json = Inr \<lparr>noteId = ''note-2'', originalContent = short_note,
        subject = ''Biology'', enhancementSettings = basic_preset\<rparr>,
      OPENAI_API_KEY = Some ''sk-2'', OPENAI_MODEL = Some ''gpt-4'',
      getModelConfig = (\<lambda>_. \<lparr>name = ''GPT-4'', maxInputTokens = 8000, maxOutputTokens = 4000\<rparr>),
      chat_completions_create = (\<lambda>_. Inl connection_fault),
      date_now_start = 0, date_now_end = 1\<rparr>"

section \<open>Properties\<close>

subsection \<open>Auxiliary facts\<close>

lemma split_go_nonempty: "1 \<le> length (split_go b cur s)"
  by (induction s arbitrary: b cur) auto

lemma split_ws_nonempty: "1 \<le> length (split_ws s)"
  using split_go_nonempty [of False "[]" s] by (simp add: split_ws_def)

lemma estimate_tokens_div: "estimate_tokens c = (length c + 3) div 4"
  unfolding estimate_tokens_def by linarith

lemma budget_gate_Some:
  "maxInputTokens cfg < int (estimate_tokens c) \<Longrightarrow>
   budget_gate c cfg =
     Some \<lparr>http_status = 400, success = False,
       error = Some (''Content too large ('' @ show_nat (estimate_tokens c) @
                 '' estimated tokens). Please reduce content to under '' @
                 show_int (maxInputTokens cfg * 4) @ '' characters.''),
       details = None, enhancedContent = None, processingTime = None, wordCount = None,
       estimatedTokens = Some (estimate_tokens c), maxTokens = Some (maxInputTokens cfg * 4)\<rparr>"
  by (simp add: budget_gate_def json_response_def Let_def)

lemma budget_gate_None:
  "(budget_gate c cfg = None) = (int (estimate_tokens c) \<le> maxInputTokens cfg)"
  by (simp add: budget_gate_def Let_def)

text \<open>
  What the \<^verbatim>\<open>try\<close> block does once the caller is known, the body is read, the budget
  gate is passed and a credential is present: it calls the provider once, with the
  composed prompt.
\<close>

lemma try_block_provider:
  assumes "auth env = Inr a" and "\<not> falsy (userId a)" and "request_json env = Inr body"
    and "budget_gate (originalContent body) (getModelConfig env (model_name env)) = None"
    and "\<not> falsy (OPENAI_API_KEY env)"
  shows "try_block footer env =
    (let m = model_name env; cfg = getModelConfig env m;
         req = completion_request m cfg
                 (compose_prompt (subject body) (originalContent body)
                    (effectiveSettings (isPaid a) (enhancementSettings body)));
         effects = [CallAuth, ReadBody] @ log_lines m cfg (estimate_tokens (originalContent body)) @
                   [CreateCompletion req]
     in case chat_completions_create env req of
          Inl e \<Rightarrow> (Inl e, effects)
        | Inr completion \<Rightarrow>
            (Inr (success_response completion (date_now_start env) (date_now_end env)), effects))"
  using assms by (simp add: try_block_def Let_def split: sum.splits)

lemma sent_prompts_append: "sent_prompts (xs @ ys) = sent_prompts xs @ sent_prompts ys"
  by (induction xs rule: sent_prompts.induct) auto

lemma provider_calls_append: "provider_calls (xs @ ys) = provider_calls xs + provider_calls ys"
  by (induction xs rule: provider_calls.induct) auto

lemma POST_provider_effects:
  assumes "auth env = Inr a" and "\<not> falsy (userId a)" and "request_json env = Inr body"
    and "budget_gate (originalContent body) (getModelConfig env (model_name env)) = None"
    and "\<not> falsy (OPENAI_API_KEY env)"
  shows "sent_prompts (snd (POST footer env)) =
           [compose_prompt (subject body) (originalContent body)
              (effectiveSettings (isPaid a) (enhancementSettings body))]"
    and "provider_calls (snd (POST footer env)) = 1"
  using try_block_provider [OF assms, of footer]
  by (simp_all add: POST_def Let_def log_lines_def completion_request_def
        sent_prompts_append provider_calls_append split: sum.splits)

lemmas sample_defs =
  sample_env_def sample_auth_def sample_request_def sample_config_def sample_settings_def
  free_user_def pro_user_def anonymous_def short_note_def sample_completion_def
  sample_footer_def

subsection \<open>Settings normalisation\<close>

text \<open>
  C1. A caller who has none of the plans student, pro and premium gets exactly the basic
  preset, whatever settings the request carries; a caller who has one of them gets the
  requested settings unchanged.
\<close>

theorem effective_settings_by_plan:
  "(\<not> has_plan a ''student'' \<and> \<not> has_plan a ''pro'' \<and> \<not> has_plan a ''premium'' \<longrightarrow>
      effectiveSettings (isPaid a) requested =
        \<lparr>includeDefinitions = True, generateQuestions = False, createSummary = False,
         addExamples = False, structureLevel = Basic, autoGenerateFlashcards = False\<rparr>)
   \<and> (has_plan a ''student'' \<or> has_plan a ''pro'' \<or> has_plan a ''premium'' \<longrightarrow>
      effectiveSettings (isPaid a) requested = requested)"
  by (simp add: effectiveSettings_def isPaid_def isStudent_def isPro_def basic_preset_def)

theorem effective_settings_by_plan_witness:
  "(\<not> has_plan free_user ''student'' \<and> \<not> has_plan free_user ''pro'' \<and>
    \<not> has_plan free_user ''premium'')
   \<and> effectiveSettings (isPaid free_user) sample_settings =
        \<lparr>includeDefinitions = True, generateQuestions = False, createSummary = False,
         addExamples = False, structureLevel = Basic, autoGenerateFlashcards = False\<rparr>
   \<and> has_plan pro_user ''pro''
   \<and> effectiveSettings (isPaid pro_user) sample_settings = sample_settings"
  using effective_settings_by_plan [of free_user sample_settings]
    effective_settings_by_plan [of pro_user sample_settings]
  by (simp add: has_plan_def free_user_def pro_user_def sample_auth_def)

subsection \<open>Budget gate\<close>

text \<open>
  C2. The token estimate of a content is the ceiling of a quarter of its length: 0, 1, 1
  and 2 for the lengths 0, 1, 4 and 5. An empty content passes the budget gate exactly
  when the input ceiling of the model is not negative; line 60 compares the estimate 0
  with the ceiling as it comes from the registry.
\<close>

theorem token_estimate_is_ceiling:
  "int (estimate_tokens c) = \<lceil>real (length c) / 4\<rceil>
   \<and> estimate_tokens c = (length c + 3) div 4
   \<and> (length c = 0 \<longrightarrow> estimate_tokens c = 0)
   \<and> (length c = 1 \<longrightarrow> estimate_tokens c = 1)
   \<and> (length c = 4 \<longrightarrow> estimate_tokens c = 1)
   \<and> (length c = 5 \<longrightarrow> estimate_tokens c = 2)
   \<and> (length c = 0 \<and> 0 \<le> maxInputTokens cfg \<longrightarrow> budget_gate c cfg = None)
   \<and> (length c = 0 \<longrightarrow> (budget_gate c cfg = None) = (0 \<le> maxInputTokens cfg))"
proof -
  have "int (estimate_tokens c) = \<lceil>real (length c) / 4\<rceil>"
    unfolding estimate_tokens_def by simp
  moreover have "length c = 0 \<longrightarrow> (budget_gate c cfg = None) = (0 \<le> maxInputTokens cfg)"
    by (simp add: budget_gate_None estimate_tokens_div)
  ultimately show ?thesis
    by (simp add: estimate_tokens_div)
qed

theorem token_estimate_is_ceiling_witness:
  "length '''' = 0 \<and> estimate_tokens '''' = 0
   \<and> 0 \<le> maxInputTokens sample_config \<and> budget_gate '''' sample_config = None
   \<and> length ''a'' = 1 \<and> estimate_tokens ''a'' = 1
   \<and> length ''abcd'' = 4 \<and> estimate_tokens ''abcd'' = 1
   \<and> length ''abcde'' = 5 \<and> estimate_tokens ''abcde'' = 2"
  using token_estimate_is_ceiling [of "''''" sample_config]
    token_estimate_is_ceiling [of "''a''"]
    token_estimate_is_ceiling [of "''abcd''"]
    token_estimate_is_ceiling [of "''abcde''"]
  by (simp add: sample_config_def)

text \<open>
  Without the condition on the ceiling the last part of C2 fails: where the registry
  gives the ceiling \<open>- 1\<close>, the estimate 0 of the empty content exceeds it, and the gate
  answers 400.
\<close>

theorem empty_content_rejected_counterexample:
  "length '''' = 0
   \<and> estimate_tokens '''' = 0
   \<and> budget_gate '''' negative_ceiling_config =
       Some \<lparr>http_status = 400, success = False,
         error = Some ''Content too large (0 estimated tokens). Please reduce content to under -4 characters.'',
         details = None, enhancedContent = None, processingTime = None, wordCount = None,
         estimatedTokens = Some 0, maxTokens = Some (- 4)\<rparr>"
  by (simp add: budget_gate_def negative_ceiling_config_def estimate_tokens_div json_response_def
        show_int_def show_nat.simps)

text \<open>
  C3. When the caller is authenticated, the body is read and the estimate exceeds the
  input ceiling of the model, the handler answers 400 with \<open>success = False\<close>, the
  estimate, and four times the ceiling as \<open>maxTokens\<close>; the provider is not called.
\<close>

theorem oversized_content_short_circuits:
  assumes "auth env = Inr a" and "\<not> falsy (userId a)" and "request_json env = Inr body"
    and "maxInputTokens (getModelConfig env (model_name env)) < int (estimate_tokens (originalContent body))"
  shows "http_status (fst (POST footer env)) = 400
    \<and> success (fst (POST footer env)) = False
    \<and> estimatedTokens (fst (POST footer env)) = Some (estimate_tokens (originalContent body))
    \<and> maxTokens (fst (POST footer env)) =
        Some (maxInputTokens (getModelConfig env (model_name env)) * 4)
    \<and> error (fst (POST footer env)) =
        Some (''Content too large ('' @ show_nat (estimate_tokens (originalContent body)) @
              '' estimated tokens). Please reduce content to under '' @
              show_int (maxInputTokens (getModelConfig env (model_name env)) * 4) @ '' characters.'')
    \<and> provider_calls (snd (POST footer env)) = 0
    \<and> sent_prompts (snd (POST footer env)) = []"
  using assms budget_gate_Some [OF assms(4)]
  by (simp add: POST_def try_block_def Let_def log_lines_def)

theorem oversized_content_short_circuits_witness:
  "auth oversized_env = Inr free_user
   \<and> \<not> falsy (userId free_user)
   \<and> request_json oversized_env = Inr (sample_request (replicate 10000 (CHR ''x'')) sample_settings)
   \<and> maxInputTokens (getModelConfig oversized_env (model_name oversized_env)) = 2000
   \<and> estimate_tokens (replicate 10000 (CHR ''x'')) = 2500
   \<and> http_status (fst (POST sample_footer oversized_env)) = 400
   \<and> success (fst (POST sample_footer oversized_env)) = False
   \<and> estimatedTokens (fst (POST sample_footer oversized_env)) = Some 2500
   \<and> maxTokens (fst (POST sample_footer oversized_env)) = Some 8000
   \<and> error (fst (POST sample_footer oversized_env)) =
        Some ''Content too large (2500 estimated tokens). Please reduce content to under 8000 characters.''
   \<and> provider_calls (snd (POST sample_footer oversized_env)) = 0"
  using oversized_content_short_circuits
    [of oversized_env free_user "sample_request (replicate 10000 (CHR ''x'')) sample_settings" sample_footer]
  by (simp add: oversized_env_def sample_defs falsy_def model_name_def estimate_tokens_div
        show_nat.simps show_int_def)

subsection \<open>Authentication\<close>

text \<open>
  C7. When \<^verbatim>\<open>auth()\<close> resolves without a user identity, the handler answers 401 with
  the body \<open>{success: false, error: "Not authenticated"}\<close>, and the only effect of the run
  is the call of \<^verbatim>\<open>auth()\<close>: the body is not read, nothing is logged about the budget,
  the provider is not called.
\<close>

theorem unauthenticated_is_401:
  assumes "auth env = Inr a" and "falsy (userId a)"
  shows "POST footer env =
      (\<lparr>http_status = 401, success = False, error = Some ''Not authenticated'',
        details = None, enhancedContent = None, processingTime = None, wordCount = None,
        estimatedTokens = None, maxTokens = None\<rparr>,
       [CallAuth])"
  using assms by (simp add: POST_def try_block_def not_authenticated_def json_response_def)

theorem unauthenticated_is_401_witness:
  "auth anonymous_env = Inr anonymous \<and> falsy (userId anonymous)
   \<and> POST sample_footer anonymous_env =
      (\<lparr>http_status = 401, success = False, error = Some ''Not authenticated'',
        details = None, enhancedContent = None, processingTime = None, wordCount = None,
        estimatedTokens = None, maxTokens = None\<rparr>,
       [CallAuth])"
  using unauthenticated_is_401 [of anonymous_env anonymous sample_footer]
  by (simp add: anonymous_env_def sample_defs falsy_def)

subsection \<open>Placeholder path\<close>

lemma sublist_in_tail: "sublist xs ys \<Longrightarrow> sublist xs (zs @ ys)"
  by (metis sublist_append)

lemma mock_sections:
  "mockEnhancedContent footer subj c =
     (''# Enhanced: '' @ subj) @ ''\<newline>\<newline>## Summary\<newline>'' @
     ''This is a mock enhancement since no OpenAI API key is configured. Please add your OpenAI API key to the .env.local file for full functionality.'' @
     ''\<newline>\<newline>## Original Content\<newline>'' @
     c @
     ''\<newline>\<newline>## Study Questions\<newline>'' @
     ''1. What are the main points covered in this content?'' @ ''\<newline>'' @
     ''2. How can you apply these concepts in practice?'' @ ''\<newline>'' @
     ''3. What questions do you have about this material?'' @
     ''\<newline>\<newline>## Key Terms\<newline>'' @
     ''- **Term**: Definition would appear here with real API'' @ ''\<newline>'' @
     ''- **Concept**: Explanation would appear here with real API'' @
     ''\<newline>\<newline>---\<newline>'' @ footer"
  by (simp add: mockEnhancedContent_def)

lemma sublist_steps:
  "sublist xs (xs @ ss)"
  "sublist xs ys \<Longrightarrow> sublist xs (zs @ ys)"
  by (simp_all add: sublist_in_tail)

lemma mock_contains:
  "sublist (''# Enhanced: '' @ subj) (mockEnhancedContent footer subj c)"
  "sublist ''This is a mock enhancement since no OpenAI API key is configured. Please add your OpenAI API key to the .env.local file for full functionality.'' (mockEnhancedContent footer subj c)"
  "sublist c (mockEnhancedContent footer subj c)"
  "sublist ''1. What are the main points covered in this content?'' (mockEnhancedContent footer subj c)"
  "sublist ''2. How can you apply these concepts in practice?'' (mockEnhancedContent footer subj c)"
  "sublist ''3. What questions do you have about this material?'' (mockEnhancedContent footer subj c)"
  "sublist ''- **Term**: Definition would appear here with real API'' (mockEnhancedContent footer subj c)"
  "sublist ''- **Concept**: Explanation would appear here with real API'' (mockEnhancedContent footer subj c)"
  unfolding mock_sections
  by (intro sublist_steps)+

lemma POST_placeholder:
  assumes "auth env = Inr a" and "\<not> falsy (userId a)" and "request_json env = Inr body"
    and "int (estimate_tokens (originalContent body)) \<le> maxInputTokens (getModelConfig env (model_name env))"
    and "falsy (OPENAI_API_KEY env)"
  shows "POST footer env =
     (mock_response footer (subject body) (originalContent body),
      [CallAuth, ReadBody] @
      log_lines (model_name env) (getModelConfig env (model_name env))
        (estimate_tokens (originalContent body)))"
  using assms by (simp add: POST_def try_block_def Let_def budget_gate_None [symmetric])

text \<open>
  What the handler does when it runs without a usable credential (the variable absent or
  empty), the caller being authenticated and the budget gate passed: status 200,
  \<open>success = True\<close>, \<open>processingTime = 1000\<close>, the placeholder document and the number
  of pieces of its split at white space; the document contains the heading with the
  subject, the notice, the content itself, the three questions and the two term lines;
  the provider is not called.
\<close>

lemma handler_placeholder:
  assumes "auth env = Inr a" and "\<not> falsy (userId a)" and "request_json env = Inr body"
    and "int (estimate_tokens (originalContent body)) \<le> maxInputTokens (getModelConfig env (model_name env))"
    and "falsy (OPENAI_API_KEY env)"
  shows "fst (POST footer env) =
      \<lparr>http_status = 200, success = True, error = None, details = None,
       enhancedContent = Some (mockEnhancedContent footer (subject body) (originalContent body)),
       processingTime = Some 1000,
       wordCount = Some (length (split_ws
         (mockEnhancedContent footer (subject body) (originalContent body)))),
       estimatedTokens = None, maxTokens = None\<rparr>
    \<and> provider_calls (snd (POST footer env)) = 0
    \<and> sublist (''# Enhanced: '' @ subject body)
         (mockEnhancedContent footer (subject body) (originalContent body))
    \<and> sublist ''This is a mock enhancement since no OpenAI API key is configured. Please add your OpenAI API key to the .env.local file for full functionality.''
         (mockEnhancedContent footer (subject body) (originalContent body))
    \<and> sublist (originalContent body)
         (mockEnhancedContent footer (subject body) (originalContent body))
    \<and> sublist ''1. What are the main points covered in this content?''
         (mockEnhancedContent footer (subject body) (originalContent body))
    \<and> sublist ''2. How can you apply these concepts in practice?''
         (mockEnhancedContent footer (subject body) (originalContent body))
    \<and> sublist ''3. What questions do you have about this material?''
         (mockEnhancedContent footer (subject body) (originalContent body))
    \<and> sublist ''- **Term**: Definition would appear here with real API''
         (mockEnhancedContent footer (subject body) (originalContent body))
    \<and> sublist ''- **Concept**: Explanation would appear here with real API''
         (mockEnhancedContent footer (subject body) (originalContent body))"
proof -
  have run: "provider_calls (snd (POST footer env)) = 0"
    using POST_placeholder [OF assms, of footer] by (simp add: log_lines_def)
  have resp: "fst (POST footer env) =
      \<lparr>http_status = 200, success = True, error = None, details = None,
       enhancedContent = Some (mockEnhancedContent footer (subject body) (originalContent body)),
       processingTime = Some 1000,
       wordCount = Some (length (split_ws
         (mockEnhancedContent footer (subject body) (originalContent body)))),
       estimatedTokens = None, maxTokens = None\<rparr>"
    using POST_placeholder [OF assms, of footer]
    by (simp add: mock_response_def json_response_def Let_def)
  show ?thesis
    by (intro conjI resp run mock_contains)
qed

text \<open>The route with a key: the module loads and the handler answers.\<close>

lemma route_with_key:
  "OPENAI_API_KEY env = Some k \<Longrightarrow>
   route footer env = Handled (fst (POST footer env)) (snd (POST footer env))"
  by (simp add: route_def new_OpenAI_def split: prod.splits)

text \<open>The route without the variable: the module does not load.\<close>

lemma route_without_key: "OPENAI_API_KEY env = None \<Longrightarrow> route footer env = LoadFailure"
  by (simp add: route_def new_OpenAI_def)

text \<open>
  The placeholder is reached through the route only with a key that is present and
  empty.
\<close>

lemma placeholder_needs_empty_key:
  assumes "route footer env = Handled r effects" and "falsy (OPENAI_API_KEY env)"
  shows "OPENAI_API_KEY env = Some []"
  using assms
  by (cases "OPENAI_API_KEY env") (simp_all add: route_def new_OpenAI_def falsy_def)

lemma empty_key_env_placeholder:
  "route sample_footer empty_key_env =
     Handled (mock_response sample_footer ''Biology'' short_note)
       (snd (POST sample_footer empty_key_env))"
proof -
  have small: "int (estimate_tokens short_note) \<le> 2000"
    by (simp add: estimate_tokens_div short_note_def)
  have "fst (POST sample_footer empty_key_env) = mock_response sample_footer ''Biology'' short_note"
    using small
      POST_placeholder
        [of empty_key_env pro_user "sample_request short_note sample_settings" sample_footer]
    by (simp add: empty_key_env_def sample_env_def sample_auth_def sample_request_def
          sample_config_def pro_user_def falsy_def model_name_def)
  then show ?thesis
    using route_with_key [of empty_key_env "[]" sample_footer]
    by (simp add: empty_key_env_def sample_env_def)
qed

text \<open>
  C4. An authenticated request that passes the budget gate while no credential is
  configured is meant to be answered with the placeholder document, \<open>success = True\<close>
  and \<open>processingTime = 1000\<close>: the comment on line 70 says so ("for testing without API
  key"), and the branch of line 69 does it when the handler runs. With the variable absent
  the route does not get there: the constructor on lines 7 to 9 throws when the module is
  loaded, and the handler never runs.
\<close>

theorem absent_key_fails_before_handler:
  "OPENAI_API_KEY no_key_env = None
   \<and> auth no_key_env = Inr pro_user
   \<and> request_json no_key_env = Inr (sample_request short_note sample_settings)
   \<and> budget_gate short_note (getModelConfig no_key_env (model_name no_key_env)) = None
   \<and> fst (POST sample_footer no_key_env) = mock_response sample_footer ''Biology'' short_note
   \<and> route sample_footer no_key_env = LoadFailure"
proof -
  have small: "int (estimate_tokens short_note) \<le> 2000"
    by (simp add: estimate_tokens_div short_note_def)
  have intended: "fst (POST sample_footer no_key_env) = mock_response sample_footer ''Biology'' short_note"
    using small
      POST_placeholder
        [of no_key_env pro_user "sample_request short_note sample_settings" sample_footer]
    by (simp add: no_key_env_def sample_env_def sample_auth_def sample_request_def
          sample_config_def pro_user_def falsy_def model_name_def)
  have actual: "route sample_footer no_key_env = LoadFailure"
    by (rule route_without_key) (simp add: no_key_env_def sample_env_def)
  have gate: "budget_gate short_note (getModelConfig no_key_env (model_name no_key_env)) = None"
    using small
    by (simp add: no_key_env_def sample_env_def sample_config_def budget_gate_None)
  show ?thesis
    using intended actual gate
    by (simp add: no_key_env_def sample_env_def)
qed

subsection \<open>Faults of the provider\<close>

text \<open>
  C5. When the call of the provider throws, the response depends on two properties of
  what is thrown, in this order: the code \<open>rate_limit_exceeded\<close> gives 429 with the
  rate-limit message; otherwise the status 429 gives 400 with the message of a content
  that is too large; anything else gives 500 with one fixed message. Each of the three
  bodies is a constant: nothing of the fault is copied into it.
\<close>

theorem provider_faults_classified:
  assumes "auth env = Inr a" and "\<not> falsy (userId a)" and "request_json env = Inr body"
    and "int (estimate_tokens (originalContent body)) \<le> maxInputTokens (getModelConfig env (model_name env))"
    and "\<not> falsy (OPENAI_API_KEY env)"
    and "chat_completions_create env
           (completion_request (model_name env) (getModelConfig env (model_name env))
              (compose_prompt (subject body) (originalContent body)
                 (effectiveSettings (isPaid a) (enhancementSettings body)))) = Inl e"
  shows "(code e = Some ''rate_limit_exceeded'' \<longrightarrow>
            fst (POST footer env) =
              \<lparr>http_status = 429, success = False,
               error = Some ''Rate limit exceeded. Please wait a moment and try again, or reduce the content size.'',
               details = Some ''OpenAI rate limit hit. Try with shorter content.'',
               enhancedContent = None, processingTime = None, wordCount = None,
               estimatedTokens = None, maxTokens = None\<rparr>)
       \<and> (code e \<noteq> Some ''rate_limit_exceeded'' \<and> status e = Some 429 \<longrightarrow>
            fst (POST footer env) =
              \<lparr>http_status = 400, success = False,
               error = Some ''Content too large for processing. Please reduce the content size and try again.'',
               details = Some ''Token limit exceeded. Try with shorter content.'',
               enhancedContent = None, processingTime = None, wordCount = None,
               estimatedTokens = None, maxTokens = None\<rparr>)
       \<and> (code e \<noteq> Some ''rate_limit_exceeded'' \<and> status e \<noteq> Some 429 \<longrightarrow>
            fst (POST footer env) =
              \<lparr>http_status = 500, success = False,
               error = Some ''Failed to enhance note. Please try again.'',
               details = None,
               enhancedContent = None, processingTime = None, wordCount = None,
               estimatedTokens = None, maxTokens = None\<rparr>)"
proof -
  have gate: "budget_gate (originalContent body) (getModelConfig env (model_name env)) = None"
    using assms(4) by (simp add: budget_gate_None)
  have "fst (POST footer env) = handle_error e"
    using try_block_provider [OF assms(1-3) gate assms(5), of footer] assms(6)
    by (simp add: POST_def Let_def)
  then show ?thesis
    by (simp add: handle_error_def json_response_def)
qed

theorem provider_faults_classified_witness:
  "code rate_limit_fault = Some ''rate_limit_exceeded''
   \<and> http_status (fst (POST sample_footer (provider_env pro_user sample_settings (Inl rate_limit_fault)))) = 429
   \<and> code too_many_requests_fault \<noteq> Some ''rate_limit_exceeded''
   \<and> status too_many_requests_fault = Some 429
   \<and> http_status (fst (POST sample_footer (provider_env pro_user sample_settings (Inl too_many_requests_fault)))) = 400
   \<and> error (fst (POST sample_footer (provider_env pro_user sample_settings (Inl too_many_requests_fault)))) =
        Some ''Content too large for processing. Please reduce the content size and try again.''
   \<and> code connection_fault \<noteq> Some ''rate_limit_exceeded''
   \<and> status connection_fault \<noteq> Some 429
   \<and> fst (POST sample_footer (provider_env pro_user sample_settings (Inl connection_fault))) =
        \<lparr>http_status = 500, success = False,
         error = Some ''Failed to enhance note. Please try again.'', details = None,
         enhancedContent = None, processingTime = None, wordCount = None,
         estimatedTokens = None, maxTokens = None\<rparr>"
proof -
  have small: "int (estimate_tokens short_note) \<le> 2000"
    by (simp add: estimate_tokens_div short_note_def)
  show ?thesis
    using small
      provider_faults_classified
        [of "provider_env pro_user sample_settings (Inl rate_limit_fault)" pro_user
            "sample_request short_note sample_settings" rate_limit_fault sample_footer]
      provider_faults_classified
        [of "provider_env pro_user sample_settings (Inl too_many_requests_fault)" pro_user
            "sample_request short_note sample_settings" too_many_requests_fault sample_footer]
      provider_faults_classified
        [of "provider_env pro_user sample_settings (Inl connection_fault)" pro_user
            "sample_request short_note sample_settings" connection_fault sample_footer]
    by (simp add: provider_env_def sample_env_def sample_auth_def sample_config_def pro_user_def
          sample_request_def falsy_def model_name_def rate_limit_fault_def
          too_many_requests_fault_def connection_fault_def)
qed

subsection \<open>Word count\<close>

lemma handle_error_not_success: "\<not> success (handle_error e)"
  by (simp add: handle_error_def json_response_def)

lemma budget_gate_not_success: "budget_gate c cfg = Some r \<Longrightarrow> \<not> success r"
  by (auto simp add: budget_gate_def json_response_def Let_def split: if_splits)

lemma POST_success_word_count:
  assumes "success (fst (POST footer env))"
  shows "\<exists>s. wordCount (fst (POST footer env)) = Some (length (split_ws s))"
  using assms
  by (auto simp add: POST_def try_block_def Let_def handle_error_not_success
        not_authenticated_def json_response_def mock_response_def success_response_def
      dest: budget_gate_not_success split: sum.splits option.splits if_splits)

text \<open>
  C10. A response with \<open>success = True\<close> carries a \<open>wordCount\<close> of at least 1. When the
  provider returns no content, \<open>enhancedContent\<close> is the empty string and \<open>wordCount\<close> is
  1: a split at runs of white space has at least one piece.
\<close>

theorem word_count_at_least_one:
  "(success (fst (POST footer env)) \<longrightarrow>
      (\<exists>n. wordCount (fst (POST footer env)) = Some n \<and> 1 \<le> n))
   \<and> (first_content completion = [] \<longrightarrow>
      enhancedContent (success_response completion t0 t1) = Some []
      \<and> wordCount (success_response completion t0 t1) = Some 1)
   \<and> 1 \<le> length (split_ws s)"
proof (intro conjI impI)
  assume "success (fst (POST footer env))"
  from POST_success_word_count [OF this]
  obtain t where "wordCount (fst (POST footer env)) = Some (length (split_ws t))" ..
  then show "\<exists>n. wordCount (fst (POST footer env)) = Some n \<and> 1 \<le> n"
    using split_ws_nonempty [of t] by simp
next
  assume "first_content completion = []"
  then show "enhancedContent (success_response completion t0 t1) = Some []"
    and "wordCount (success_response completion t0 t1) = Some 1"
    by (simp_all add: success_response_def Let_def split_ws_def)
next
  show "1 \<le> length (split_ws s)"
    by (rule split_ws_nonempty)
qed

theorem word_count_at_least_one_witness:
  "success (fst (POST sample_footer (provider_env pro_user sample_settings (Inr (ChatCompletion [])))))
   \<and> enhancedContent (fst (POST sample_footer (provider_env pro_user sample_settings (Inr (ChatCompletion []))))) = Some []
   \<and> wordCount (fst (POST sample_footer (provider_env pro_user sample_settings (Inr (ChatCompletion []))))) = Some 1
   \<and> first_content (ChatCompletion []) = []
   \<and> wordCount (success_response (ChatCompletion []) 5000 5750) = Some 1"
proof -
  have small: "int (estimate_tokens short_note) \<le> 2000"
    by (simp add: estimate_tokens_div short_note_def)
  have run: "fst (POST sample_footer (provider_env pro_user sample_settings (Inr (ChatCompletion []))))
      = success_response (ChatCompletion []) 5000 5750"
    using small
    by (simp add: POST_def try_block_def Let_def provider_env_def sample_env_def sample_auth_def
          sample_config_def sample_request_def pro_user_def falsy_def model_name_def
          budget_gate_def)
  show ?thesis
    using word_count_at_least_one
      [of sample_footer "provider_env pro_user sample_settings (Inr (ChatCompletion []))"
          "ChatCompletion []" 5000 5750]
    by (simp add: run first_content_def success_response_def json_response_def Let_def)
qed

subsection \<open>Prompt composition\<close>

lemmas prompt_defs =
  detailed_instruction_def enhancementPrompts_structure_def enhancementPrompts_definitions_def
  enhancementPrompts_questions_def enhancementPrompts_summary_def enhancementPrompts_examples_def

lemma join_Cons: "join sep (x # xs) = x @ (if xs = [] then [] else sep @ join sep xs)"
  by (cases xs) simp_all

lemma join_avoids:
  "a \<notin> set sep \<Longrightarrow> (\<And>x. x \<in> set xs \<Longrightarrow> a \<notin> set x) \<Longrightarrow> a \<notin> set (join sep xs)"
  by (induction sep xs rule: join.induct) auto

lemma sublist_unique_head:
  assumes "P \<noteq> []" and "Q \<noteq> []" and "hd Q = hd P"
    and "hd P \<notin> set (tl Q)" and "hd P \<notin> set R"
    and "sublist P (Q @ R)"
  shows "prefix P (Q @ R)"
proof -
  obtain ps ss where eq: "Q @ R = ps @ P @ ss"
    using assms(6) by (auto simp add: sublist_def)
  show ?thesis
  proof (cases ps)
    case Nil
    with eq show ?thesis by (simp add: prefix_def)
  next
    case (Cons b ps')
    obtain Q' where Q: "Q = hd P # Q'" and Q': "hd P \<notin> set Q'"
      using assms(2,3,4) by (cases Q) auto
    obtain P' where P: "P = hd P # P'"
      using assms(1) by (cases P) auto
    from eq Cons Q have "Q' @ R = ps' @ P @ ss" by simp
    then have "set P \<subseteq> set (Q' @ R)" by auto
    moreover have "hd P \<in> set P" using assms(1) by simp
    ultimately show ?thesis using Q' assms(5) by auto
  qed
qed

lemma enhancements_split:
  "enhancements s =
     (if structureLevel s = Comprehensive then [enhancementPrompts_structure]
      else if structureLevel s = Detailed then [detailed_instruction] else []) @
     ((if includeDefinitions s then [enhancementPrompts_definitions] else []) @
      (if generateQuestions s then [enhancementPrompts_questions] else []) @
      (if createSummary s then [enhancementPrompts_summary] else []) @
      (if addExamples s then [enhancementPrompts_examples] else []))"
  by (simp add: enhancements_def Let_def)

lemma letter_O_absent:
  "CHR ''O'' \<notin> set enhancementPrompts_definitions"
  "CHR ''O'' \<notin> set enhancementPrompts_questions"
  "CHR ''O'' \<notin> set enhancementPrompts_summary"
  "CHR ''O'' \<notin> set enhancementPrompts_examples"
  by (simp_all add: prompt_defs)

lemma letter_O_heads:
  "hd enhancementPrompts_structure = CHR ''O''" "enhancementPrompts_structure \<noteq> []"
  "CHR ''O'' \<notin> set (tl enhancementPrompts_structure)"
  "hd detailed_instruction = CHR ''O''" "detailed_instruction \<noteq> []"
  "CHR ''O'' \<notin> set (tl detailed_instruction)"
  by (simp_all add: prompt_defs)

lemma not_prefix_each_other:
  "\<not> prefix enhancementPrompts_structure (detailed_instruction @ R)"
  "\<not> prefix detailed_instruction (enhancementPrompts_structure @ R)"
  by (simp_all add: prompt_defs)

lemma structure_in_block:
  "sublist enhancementPrompts_structure (enhancement_block s) = (structureLevel s = Comprehensive)"
proof -
  define flags where "flags =
      (if includeDefinitions s then [enhancementPrompts_definitions] else []) @
      (if generateQuestions s then [enhancementPrompts_questions] else []) @
      (if createSummary s then [enhancementPrompts_summary] else []) @
      (if addExamples s then [enhancementPrompts_examples] else [])"
  define R where "R = (if flags = [] then [] else ''\<newline>\<newline>'' @ join ''\<newline>\<newline>'' flags)"
  have flags: "CHR ''O'' \<notin> set (join ''\<newline>\<newline>'' flags)"
    by (rule join_avoids) (auto simp add: flags_def letter_O_absent split: if_splits)
  then have R: "CHR ''O'' \<notin> set R"
    by (simp add: R_def)
  show ?thesis
  proof (cases "structureLevel s")
    case Basic
    then have "enhancement_block s = join ''\<newline>\<newline>'' flags"
      by (simp add: enhancement_block_def enhancements_split flags_def)
    with flags have "CHR ''O'' \<notin> set (enhancement_block s)" by simp
    moreover have "CHR ''O'' \<in> set enhancementPrompts_structure"
      by (simp add: prompt_defs)
    ultimately have "\<not> sublist enhancementPrompts_structure (enhancement_block s)"
      using set_mono_sublist by blast
    with Basic show ?thesis by simp
  next
    case Detailed
    then have block: "enhancement_block s = detailed_instruction @ R"
      by (simp add: enhancement_block_def enhancements_split flags_def [symmetric] join_Cons R_def)
    have "\<not> sublist enhancementPrompts_structure (detailed_instruction @ R)"
      using sublist_unique_head [of enhancementPrompts_structure detailed_instruction R]
        not_prefix_each_other(1) [of R] R
      by (auto simp add: letter_O_heads)
    with Detailed block show ?thesis by simp
  next
    case Comprehensive
    then have "enhancement_block s = enhancementPrompts_structure @ R"
      by (simp add: enhancement_block_def enhancements_split flags_def [symmetric] join_Cons R_def)
    with Comprehensive show ?thesis by simp
  qed
qed

lemma detailed_in_block:
  "sublist detailed_instruction (enhancement_block s) = (structureLevel s = Detailed)"
proof -
  define flags where "flags =
      (if includeDefinitions s then [enhancementPrompts_definitions] else []) @
      (if generateQuestions s then [enhancementPrompts_questions] else []) @
      (if createSummary s then [enhancementPrompts_summary] else []) @
      (if addExamples s then [enhancementPrompts_examples] else [])"
  define R where "R = (if flags = [] then [] else ''\<newline>\<newline>'' @ join ''\<newline>\<newline>'' flags)"
  have flags: "CHR ''O'' \<notin> set (join ''\<newline>\<newline>'' flags)"
    by (rule join_avoids) (auto simp add: flags_def letter_O_absent split: if_splits)
  then have R: "CHR ''O'' \<notin> set R"
    by (simp add: R_def)
  show ?thesis
  proof (cases "structureLevel s")
    case Basic
    then have "enhancement_block s = join ''\<newline>\<newline>'' flags"
      by (simp add: enhancement_block_def enhancements_split flags_def)
    with flags have "CHR ''O'' \<notin> set (enhancement_block s)" by simp
    moreover have "CHR ''O'' \<in> set detailed_instruction"
      by (simp add: prompt_defs)
    ultimately have "\<not> sublist detailed_instruction (enhancement_block s)"
      using set_mono_sublist by blast
    with Basic show ?thesis by simp
  next
    case Comprehensive
    then have block: "enhancement_block s = enhancementPrompts_structure @ R"
      by (simp add: enhancement_block_def enhancements_split flags_def [symmetric] join_Cons R_def)
    have "\<not> sublist detailed_instruction (enhancementPrompts_structure @ R)"
      using sublist_unique_head [of detailed_instruction enhancementPrompts_structure R]
        not_prefix_each_other(2) [of R] R
      by (auto simp add: letter_O_heads)
    with Comprehensive block show ?thesis by simp
  next
    case Detailed
    then have "enhancement_block s = detailed_instruction @ R"
      by (simp add: enhancement_block_def enhancements_split flags_def [symmetric] join_Cons R_def)
    with Detailed show ?thesis by simp
  qed
qed

lemma structure_in_list:
  "(enhancementPrompts_structure \<in> set (enhancements s)) = (structureLevel s = Comprehensive)"
  by (cases "structureLevel s") (simp_all add: enhancements_split prompt_defs)

lemma detailed_in_list:
  "(detailed_instruction \<in> set (enhancements s)) = (structureLevel s = Detailed)"
  by (cases "structureLevel s") (simp_all add: enhancements_split prompt_defs)

lemma compose_prompt_sections:
  "compose_prompt subj c s =
     ''You are an expert educational assistant helping to enhance student notes. '' @
     (''The content is from a '' @ subj @ '' class. '') @
     ''Please enhance this content to make it more organized, clear, and study-friendly.\<newline>\<newline>'' @
     (''Original content:\<newline>'' @ c @ ''\<newline>\<newline>'') @
     (''Enhancement instructions:\<newline>'' @ enhancement_block s @ ''\<newline>\<newline>'') @
     ''Please provide the enhanced content in markdown format. Make it well-structured, easy to read, and study-friendly. If you add definitions, format them as **Term**: Definition. If you add questions, format them as ### Study Questions followed by numbered questions. If you add summaries, format them as ### Summary followed by bullet points.''"
  by (simp add: compose_prompt_def enhancement_block_def Let_def)

text \<open>
  C6. The structuring instruction of the level "comprehensive" is among the enhancement
  instructions exactly when the level is "comprehensive", the lighter one of the level
  "detailed" exactly when the level is "detailed", and never both; with the level "basic"
  neither is. This holds for the list of instructions and for the text of the block joined
  from it, which is the only part of the prompt that depends on the settings.
\<close>

theorem structure_instructions_exclusive:
  "(enhancementPrompts_structure \<in> set (enhancements s)) = (structureLevel s = Comprehensive)
   \<and> (detailed_instruction \<in> set (enhancements s)) = (structureLevel s = Detailed)
   \<and> \<not> (enhancementPrompts_structure \<in> set (enhancements s)
          \<and> detailed_instruction \<in> set (enhancements s))
   \<and> sublist enhancementPrompts_structure (enhancement_block s) = (structureLevel s = Comprehensive)
   \<and> sublist detailed_instruction (enhancement_block s) = (structureLevel s = Detailed)
   \<and> \<not> (sublist enhancementPrompts_structure (enhancement_block s)
          \<and> sublist detailed_instruction (enhancement_block s))
   \<and> compose_prompt subj c s =
        ''You are an expert educational assistant helping to enhance student notes. '' @
        (''The content is from a '' @ subj @ '' class. '') @
        ''Please enhance this content to make it more organized, clear, and study-friendly.\<newline>\<newline>'' @
        (''Original content:\<newline>'' @ c @ ''\<newline>\<newline>'') @
        (''Enhancement instructions:\<newline>'' @ enhancement_block s @ ''\<newline>\<newline>'') @
        ''Please provide the enhanced content in markdown format. Make it well-structured, easy to read, and study-friendly. If you add definitions, format them as **Term**: Definition. If you add questions, format them as ### Study Questions followed by numbered questions. If you add summaries, format them as ### Summary followed by bullet points.''"
proof -
  have lists: "(enhancementPrompts_structure \<in> set (enhancements s)) = (structureLevel s = Comprehensive)"
    "(detailed_instruction \<in> set (enhancements s)) = (structureLevel s = Detailed)"
    by (rule structure_in_list, rule detailed_in_list)
  have blocks: "sublist enhancementPrompts_structure (enhancement_block s) = (structureLevel s = Comprehensive)"
    "sublist detailed_instruction (enhancement_block s) = (structureLevel s = Detailed)"
    by (rule structure_in_block, rule detailed_in_block)
  have apart: "\<not> (enhancementPrompts_structure \<in> set (enhancements s)
          \<and> detailed_instruction \<in> set (enhancements s))"
    "\<not> (sublist enhancementPrompts_structure (enhancement_block s)
          \<and> sublist detailed_instruction (enhancement_block s))"
    by (simp_all add: lists blocks)
  show ?thesis
    by (intro conjI lists blocks apart compose_prompt_sections)
qed

text \<open>
  C8. The prompt is a function of the subject, the content and the effective settings:
  two runs that reach the provider, in whatever environments, send the same prompt when
  these three agree. Its sections come in the order preamble, subject sentence, framing
  sentence, original content, enhancement instructions, closing directives.
\<close>

theorem prompt_composition_deterministic:
  assumes "auth env = Inr a" and "\<not> falsy (userId a)" and "request_json env = Inr body"
    and "int (estimate_tokens (originalContent body)) \<le> maxInputTokens (getModelConfig env (model_name env))"
    and "\<not> falsy (OPENAI_API_KEY env)"
    and "auth env' = Inr a'" and "\<not> falsy (userId a')" and "request_json env' = Inr body'"
    and "int (estimate_tokens (originalContent body')) \<le> maxInputTokens (getModelConfig env' (model_name env'))"
    and "\<not> falsy (OPENAI_API_KEY env')"
    and "subject body' = subject body"
    and "originalContent body' = originalContent body"
    and "effectiveSettings (isPaid a') (enhancementSettings body') =
         effectiveSettings (isPaid a) (enhancementSettings body)"
  shows "sent_prompts (snd (POST footer env)) =
           [compose_prompt (subject body) (originalContent body)
              (effectiveSettings (isPaid a) (enhancementSettings body))]
       \<and> sent_prompts (snd (POST footer' env')) = sent_prompts (snd (POST footer env))
       \<and> compose_prompt subj c s =
           ''You are an expert educational assistant helping to enhance student notes. '' @
           (''The content is from a '' @ subj @ '' class. '') @
           ''Please enhance this content to make it more organized, clear, and study-friendly.\<newline>\<newline>'' @
           (''Original content:\<newline>'' @ c @ ''\<newline>\<newline>'') @
           (''Enhancement instructions:\<newline>'' @ enhancement_block s @ ''\<newline>\<newline>'') @
           ''Please provide the enhanced content in markdown format. Make it well-structured, easy to read, and study-friendly. If you add definitions, format them as **Term**: Definition. If you add questions, format them as ### Study Questions followed by numbered questions. If you add summaries, format them as ### Summary followed by bullet points.''"
proof -
  have g: "budget_gate (originalContent body) (getModelConfig env (model_name env)) = None"
    and g': "budget_gate (originalContent body') (getModelConfig env' (model_name env')) = None"
    using assms(4,9) by (simp_all add: budget_gate_None)
  have one: "sent_prompts (snd (POST footer env)) =
           [compose_prompt (subject body) (originalContent body)
              (effectiveSettings (isPaid a) (enhancementSettings body))]"
    by (rule POST_provider_effects(1) [OF assms(1-3) g assms(5)])
  have two: "sent_prompts (snd (POST footer' env')) =
           [compose_prompt (subject body') (originalContent body')
              (effectiveSettings (isPaid a') (enhancementSettings body'))]"
    by (rule POST_provider_effects(1) [OF assms(6-8) g' assms(10)])
  from two have same: "sent_prompts (snd (POST footer' env')) = sent_prompts (snd (POST footer env))"
    by (simp only: one assms(11-13))
  show ?thesis
    by (intro conjI one same compose_prompt_sections)
qed

theorem prompt_composition_deterministic_witness:
  "auth (provider_env free_user sample_settings (Inr (sample_completion ''ok''))) = Inr free_user
   \<and> auth student_env = Inr (sample_auth (Some ''user_3'') [''student''])
   \<and> effectiveSettings (isPaid (sample_auth (Some ''user_3'') [''student''])) basic_preset =
       effectiveSettings (isPaid free_user) sample_settings
   \<and> sent_prompts (snd (POST sample_footer student_env)) =
       sent_prompts (snd (POST [] (provider_env free_user sample_settings (Inr (sample_completion ''ok'')))))
   \<and> sent_prompts (snd (POST [] (provider_env free_user sample_settings (Inr (sample_completion ''ok''))))) =
       [compose_prompt ''Biology'' short_note basic_preset]"
proof -
  have small: "int (estimate_tokens short_note) \<le> 2000" "int (estimate_tokens short_note) \<le> 8000"
    by (simp_all add: estimate_tokens_div short_note_def)
  have same: "effectiveSettings (isPaid (sample_auth (Some ''user_3'') [''student''])) basic_preset =
       effectiveSettings (isPaid free_user) sample_settings"
    by (simp add: effectiveSettings_def isPaid_def isStudent_def isPro_def has_plan_def
          sample_auth_def free_user_def)
  have free: "effectiveSettings (isPaid free_user) sample_settings = basic_preset"
    by (simp add: effectiveSettings_def isPaid_def isStudent_def isPro_def has_plan_def
          sample_auth_def free_user_def)
  show ?thesis
    using small same free
      prompt_composition_deterministic
        [of "provider_env free_user sample_settings (Inr (sample_completion ''ok''))" free_user
            "sample_request short_note sample_settings"
            student_env "sample_auth (Some ''user_3'') [''student'']"
            "\<lparr>noteId = ''note-2'', originalContent = short_note,
              subject = ''Biology'', enhancementSettings = basic_preset\<rparr>"
            "[]" sample_footer]
    by (simp add: provider_env_def sample_env_def sample_config_def sample_request_def
          student_env_def falsy_def model_name_def free_user_def sample_auth_def)
qed

text \<open>
  C9. The composer has no failing branch: every run that reaches it calls the provider,
  once, with the composed prompt. With every flag off and the level "basic" no instruction
  is selected, and the block between the label and the closing directives is empty.
\<close>

theorem composer_total_empty_block:
  assumes "auth env = Inr a" and "\<not> falsy (userId a)" and "request_json env = Inr body"
    and "int (estimate_tokens (originalContent body)) \<le> maxInputTokens (getModelConfig env (model_name env))"
    and "\<not> falsy (OPENAI_API_KEY env)"
  shows "provider_calls (snd (POST footer env)) = 1
       \<and> sent_prompts (snd (POST footer env)) =
           [compose_prompt (subject body) (originalContent body)
              (effectiveSettings (isPaid a) (enhancementSettings body))]
       \<and> enhancements
            \<lparr>includeDefinitions = False, generateQuestions = False, createSummary = False,
             addExamples = False, structureLevel = Basic, autoGenerateFlashcards = False\<rparr> = []
       \<and> enhancement_block
            \<lparr>includeDefinitions = False, generateQuestions = False, createSummary = False,
             addExamples = False, structureLevel = Basic, autoGenerateFlashcards = False\<rparr> = []
       \<and> compose_prompt subj c
            \<lparr>includeDefinitions = False, generateQuestions = False, createSummary = False,
             addExamples = False, structureLevel = Basic, autoGenerateFlashcards = False\<rparr> =
           ''You are an expert educational assistant helping to enhance student notes. The content is from a '' @
           subj @
           '' class. Please enhance this content to make it more organized, clear, and study-friendly.\<newline>\<newline>Original content:\<newline>'' @
           c @
           ''\<newline>\<newline>Enhancement instructions:\<newline>\<newline>\<newline>Please provide the enhanced content in markdown format. Make it well-structured, easy to read, and study-friendly. If you add definitions, format them as **Term**: Definition. If you add questions, format them as ### Study Questions followed by numbered questions. If you add summaries, format them as ### Summary followed by bullet points.''"
proof -
  have g: "budget_gate (originalContent body) (getModelConfig env (model_name env)) = None"
    using assms(4) by (simp add: budget_gate_None)
  note run = POST_provider_effects [OF assms(1-3) g assms(5), of footer]
  have none: "enhancements
            \<lparr>includeDefinitions = False, generateQuestions = False, createSummary = False,
             addExamples = False, structureLevel = Basic, autoGenerateFlashcards = False\<rparr> = []"
    by (simp add: enhancements_def Let_def)
  show ?thesis
    using run none
    by (simp add: enhancement_block_def compose_prompt_def Let_def)
qed

theorem composer_total_empty_block_witness:
  "auth (provider_env pro_user all_off (Inr (sample_completion ''ok''))) = Inr pro_user
   \<and> \<not> falsy (userId pro_user)
   \<and> \<not> falsy (OPENAI_API_KEY (provider_env pro_user all_off (Inr (sample_completion ''ok''))))
   \<and> provider_calls (snd (POST sample_footer (provider_env pro_user all_off (Inr (sample_completion ''ok''))))) = 1
   \<and> sent_prompts (snd (POST sample_footer (provider_env pro_user all_off (Inr (sample_completion ''ok''))))) =
       [''You are an expert educational assistant helping to enhance student notes. The content is from a Biology class. Please enhance this content to make it more organized, clear, and study-friendly.\<newline>\<newline>Original content:\<newline>Cells divide by mitosis.\<newline>\<newline>Enhancement instructions:\<newline>\<newline>\<newline>Please provide the enhanced content in markdown format. Make it well-structured, easy to read, and study-friendly. If you add definitions, format them as **Term**: Definition. If you add questions, format them as ### Study Questions followed by numbered questions. If you add summaries, format them as ### Summary followed by bullet points.'']"
proof -
  have small: "int (estimate_tokens short_note) \<le> 2000"
    by (simp add: estimate_tokens_div short_note_def)
  have paid: "effectiveSettings (isPaid pro_user) all_off = all_off"
    by (simp add: effectiveSettings_def isPaid_def isStudent_def isPro_def has_plan_def
          sample_auth_def pro_user_def)
  have prompt_text: "compose_prompt ''Biology'' short_note all_off =
       ''You are an expert educational assistant helping to enhance student notes. The content is from a Biology class. Please enhance this content to make it more organized, clear, and study-friendly.\<newline>\<newline>Original content:\<newline>Cells divide by mitosis.\<newline>\<newline>Enhancement instructions:\<newline>\<newline>\<newline>Please provide the enhanced content in markdown format. Make it well-structured, easy to read, and study-friendly. If you add definitions, format them as **Term**: Definition. If you add questions, format them as ### Study Questions followed by numbered questions. If you add summaries, format them as ### Summary followed by bullet points.''"
    using composer_total_empty_block
      [of "provider_env pro_user all_off (Inr (sample_completion ''ok''))" pro_user
          "sample_request short_note all_off" sample_footer "''Biology''" short_note]
      small
    by (simp add: all_off_def short_note_def provider_env_def sample_env_def sample_config_def
          sample_request_def falsy_def model_name_def pro_user_def sample_auth_def)
  show ?thesis
    using small paid prompt_text
      composer_total_empty_block
      [of "provider_env pro_user all_off (Inr (sample_completion ''ok''))" pro_user
          "sample_request short_note all_off" sample_footer]
    by (simp add: provider_env_def sample_env_def sample_config_def
          sample_request_def falsy_def model_name_def pro_user_def sample_auth_def)
qed

end
